theory Spec2Isabelle
  imports Main "HOL-Library.Sublist"
begin

section \<open>The AskDeck relay (server.js)\<close>

text \<open>
  The server registers two route handlers: \<^verbatim>\<open>POST /api/askdeck\<close>, which checks the
  model handle, validates the two body fields, composes a prompt, submits it once to the
  remote model and maps what comes back to an HTTP response; and \<^verbatim>\<open>GET /api/health\<close>.
  The embedding starts where Express hands the parsed request to a route handler; the
  middleware in front of it (CORS, the JSON body parser) is not part of it.

  Effects are written out: a handler returns the HTTP status and JSON body it sends, the
  console calls it makes, and the prompts it submits to the remote model, in order.
\<close>

subsection \<open>JavaScript values of the request body\<close>

text \<open>
  \<^verbatim>\<open>req.body\<close> is whatever the body parser left there, so its fields are arbitrary
  JSON values. The payload of a number is kept abstract (type \<open>'n\<close>): the handler only
  tests a number for truthiness and converts it to a string, and both are supplied by the
  \<open>runtime\<close> record below. An object is the list of its own properties.
\<close>

datatype 'n jsval =
    JUndefined
  | JNull
  | JBool bool
  | JNum 'n
  | JStr string
  | JArr "'n jsval list"
  | JObj "(string \<times> 'n jsval) list"

text \<open>The TypeErrors the handler's own expressions can raise.\<close>

datatype type_error =
    Destructure_undefined
  | Destructure_null
  | Object_to_primitive

text \<open>
  What the JavaScript engine decides and the embedding takes as given: which numbers are
  truthy (all but \<^verbatim>\<open>0\<close>, \<^verbatim>\<open>-0\<close> and \<^verbatim>\<open>NaN\<close>), how a number prints, and the
  \<^verbatim>\<open>message\<close> of each TypeError.
\<close>

record 'n runtime =
  num_truthy :: "'n \<Rightarrow> bool"
  num_to_string :: "'n \<Rightarrow> string"
  type_error_message :: "type_error \<Rightarrow> string"

text \<open>Truthiness (\<^verbatim>\<open>ToBoolean\<close>): the operand of \<^verbatim>\<open>!\<close> in \<^verbatim>\<open>!message || !context\<close>.\<close>

fun truthy :: "'n runtime \<Rightarrow> 'n jsval \<Rightarrow> bool" where
  "truthy rt JUndefined = False"
| "truthy rt JNull = False"
| "truthy rt (JBool b) = b"
| "truthy rt (JNum n) = num_truthy rt n"
| "truthy rt (JStr s) = (s \<noteq> [])"
| "truthy rt (JArr xs) = True"
| "truthy rt (JObj kvs) = True"

text \<open>
  \<^verbatim>\<open>ToString\<close>, as a template literal applies it to each substitution. An array prints
  as its elements joined by commas, with \<^verbatim>\<open>undefined\<close> and \<^verbatim>\<open>null\<close> elements
  printing as nothing. A plain object prints as \<^verbatim>\<open>[object Object]\<close> through
  \<^verbatim>\<open>Object.prototype.toString\<close>; an own property named \<^verbatim>\<open>toString\<close> (never a
  function in parsed JSON) shadows that method, \<^verbatim>\<open>valueOf\<close> then yields no primitive
  either, and the conversion throws a TypeError.
\<close>

fun ToString :: "'n runtime \<Rightarrow> 'n jsval \<Rightarrow> type_error + string"
  and join :: "'n runtime \<Rightarrow> 'n jsval list \<Rightarrow> type_error + string"
  and element :: "'n runtime \<Rightarrow> 'n jsval \<Rightarrow> type_error + string"
where
  "ToString rt JUndefined = Inr ''undefined''"
| "ToString rt JNull = Inr ''null''"
| "ToString rt (JBool b) = Inr (if b then ''true'' else ''false'')"
| "ToString rt (JNum n) = Inr (num_to_string rt n)"
| "ToString rt (JStr s) = Inr s"
| "ToString rt (JArr xs) = join rt xs"
| "ToString rt (JObj kvs) =
     (if ''toString'' \<in> set (map fst kvs) then Inl Object_to_primitive
      else Inr ''[object Object]'')"
| "join rt [] = Inr []"
| "join rt [x] = element rt x"
| "join rt (x # y # ys) =
     (case element rt x of
        Inl e \<Rightarrow> Inl e
      | Inr s \<Rightarrow>
          (case join rt (y # ys) of
             Inl e \<Rightarrow> Inl e
           | Inr t \<Rightarrow> Inr (s @ '','' @ t)))"
| "element rt JUndefined = Inr []"
| "element rt JNull = Inr []"
| "element rt (JBool b) = ToString rt (JBool b)"
| "element rt (JNum n) = ToString rt (JNum n)"
| "element rt (JStr s) = ToString rt (JStr s)"
| "element rt (JArr xs) = ToString rt (JArr xs)"
| "element rt (JObj kvs) = ToString rt (JObj kvs)"

text \<open>
  Reading a property of the request body: an own property of an object, otherwise
  \<^verbatim>\<open>undefined\<close> (no prototype of a JSON value has a \<^verbatim>\<open>message\<close> or
  \<^verbatim>\<open>context\<close> property).
\<close>

fun property :: "'n jsval \<Rightarrow> string \<Rightarrow> 'n jsval" where
  "property (JObj kvs) k = (case map_of kvs k of Some v \<Rightarrow> v | None \<Rightarrow> JUndefined)"
| "property v k = JUndefined"

text \<open>
  \<^verbatim>\<open>const { message, context } = req.body;\<close> throws when the body is
  \<^verbatim>\<open>undefined\<close> or \<^verbatim>\<open>null\<close> and reads the two properties otherwise.
\<close>

fun destructure :: "'n jsval \<Rightarrow> type_error + ('n jsval \<times> 'n jsval)" where
  "destructure JUndefined = Inl Destructure_undefined"
| "destructure JNull = Inl Destructure_null"
| "destructure b = Inr (property b ''message'', property b ''context'')"

subsection \<open>The remote model and its result\<close>

text \<open>
  The result of \<^verbatim>\<open>sendMessage\<close> is read through the fields the handler guards; each
  guarded field may be missing. The text of a part and the block reason of the prompt
  feedback are strings when they are present; a part without text (one that carries
  something else) has none.
\<close>

record part =
  "text" :: "string option"

record content =
  parts :: "part list option"

record candidate =
  content :: "content option"

record prompt_feedback =
  blockReason :: "string option"

record response =
  candidates :: "candidate list option"
  promptFeedback :: "prompt_feedback option"

record result =
  response :: "response option"

text \<open>
  One submission either rejects with an error carrying a message or resolves with a
  result. The model handle is the function from the prompt to that outcome: it stands for
  \<^verbatim>\<open>model.startChat({ generationConfig, safetySettings, history: [] }).sendMessage\<close>.
\<close>

datatype remote_outcome = Rejects string | Resolves result

type_synonym gateway = "string \<Rightarrow> remote_outcome"

subsection \<open>Responses and console output\<close>

datatype log_arg =
    Text string
  | Stack
  | RawResponse "response option"
  | Feedback "prompt_feedback option"

datatype console_call =
    ConsoleLog string "log_arg list"
  | ConsoleWarn string "log_arg list"
  | ConsoleError string "log_arg list"

record exchange =
  status :: nat
  body :: "(string \<times> string) list"
  console :: "console_call list"
  submitted :: "string list"

text \<open>
  \<^verbatim>\<open>res.json(obj)\<close> serialises with \<^verbatim>\<open>JSON.stringify\<close>, which leaves out a
  property whose value is \<^verbatim>\<open>undefined\<close>.
\<close>

fun json :: "(string \<times> string option) list \<Rightarrow> (string \<times> string) list" where
  "json [] = []"
| "json ((k, None) # kvs) = json kvs"
| "json ((k, Some v) # kvs) = (k, v) # json kvs"

subsection \<open>Start-up: the model handle\<close>

text \<open>
  \<^verbatim>\<open>model\<close> stays \<^verbatim>\<open>undefined\<close> when the API key is missing or empty, or when
  constructing the client throws; \<open>construct key id\<close> stands for
  \<^verbatim>\<open>new GoogleGenerativeAI(key).getGenerativeModel({ model: id })\<close> and returns the
  thrown error's message on the left.
\<close>

definition startup ::
  "string option \<Rightarrow> (string \<Rightarrow> string \<Rightarrow> string + gateway) \<Rightarrow> gateway option \<times> console_call list"
where
  "startup apiKey construct =
     (case apiKey of
        None \<Rightarrow>
          (None, [ConsoleError ''CRITICAL ERROR: GOOGLE_API_KEY is not set in environment. AI features will not work.'' []])
      | Some k \<Rightarrow>
          if k = [] then
            (None, [ConsoleError ''CRITICAL ERROR: GOOGLE_API_KEY is not set in environment. AI features will not work.'' []])
          else
            (case construct k ''gemini-2.0-flash'' of
               Inl e \<Rightarrow> (None, [ConsoleError ''Error initializing Google AI SDK:'' [Text e]])
             | Inr m \<Rightarrow>
                 (Some m, [ConsoleLog ''Google AI SDK Initialized successfully (attempting to use gemini-2.0-flash).'' []])))"

definition model :: "string option \<Rightarrow> (string \<Rightarrow> string \<Rightarrow> string + gateway) \<Rightarrow> gateway option" where
  "model apiKey construct = fst (startup apiKey construct)"

subsection \<open>POST /api/askdeck\<close>

text \<open>The template literal of line 63; either substitution may throw.\<close>

definition fullPrompt :: "'n runtime \<Rightarrow> 'n jsval \<Rightarrow> 'n jsval \<Rightarrow> type_error + string" where
  "fullPrompt rt context message =
     (case ToString rt context of
        Inl e \<Rightarrow> Inl e
      | Inr c \<Rightarrow>
          (case ToString rt message of
             Inl e \<Rightarrow> Inl e
           | Inr m \<Rightarrow>
               Inr (c @ ''\<newline>\<newline>---\<newline>\<newline>User Question: '' @ m
                      @ ''\<newline>\<newline>AskDeck Response:'')))"

text \<open>The \<^verbatim>\<open>catch\<close> block, given the caught error's message and what was submitted so far.\<close>

definition catch_block :: "string \<Rightarrow> string list \<Rightarrow> exchange" where
  "catch_block msg sent =
     \<lparr> status = 500,
       body = json [(''error'', Some (''Failed to get response from AI: '' @ msg))],
       console = [ConsoleError ''Error in /api/askdeck endpoint:'' [Text msg, Stack]],
       submitted = sent \<rparr>"

text \<open>
  The optional chains \<^verbatim>\<open>result.response?.promptFeedback\<close> and
  \<^verbatim>\<open>result.response?.promptFeedback?.blockReason\<close>.
\<close>

definition feedback_of :: "result \<Rightarrow> prompt_feedback option" where
  "feedback_of r = Option.bind (response r) promptFeedback"

definition block_reason :: "result \<Rightarrow> string option" where
  "block_reason r = Option.bind (feedback_of r) blockReason"

text \<open>
  The \<^verbatim>\<open>else\<close> branch of lines 69 to 78. The block reason counts when it is truthy: a
  string that is present and not empty.
\<close>

definition no_valid_candidate :: "result \<Rightarrow> string list \<Rightarrow> exchange" where
  "no_valid_candidate r sent =
     (case block_reason r of
        None \<Rightarrow>
          \<lparr> status = 500,
            body = json [(''error'', Some ''AI did not provide a valid response.'')],
            console = [ConsoleError ''No valid candidate response from AI:'' [RawResponse (response r)]],
            submitted = sent \<rparr>
      | Some reason \<Rightarrow>
          if reason = [] then
            \<lparr> status = 500,
              body = json [(''error'', Some ''AI did not provide a valid response.'')],
              console = [ConsoleError ''No valid candidate response from AI:'' [RawResponse (response r)]],
              submitted = sent \<rparr>
          else
            \<lparr> status = 500,
              body = json [(''error'', Some (''Response blocked: '' @ reason))],
              console = [ConsoleWarn ''AI response blocked. Reason:'' [Text reason, Feedback (feedback_of r)]],
              submitted = sent \<rparr>)"

text \<open>
  The guard of line 67 reads \<^verbatim>\<open>response\<close>, \<^verbatim>\<open>candidates\<close> and the length of the
  candidate list, then \<^verbatim>\<open>content\<close> and \<^verbatim>\<open>parts\<close> of \<^verbatim>\<open>candidates[0]\<close>;
  \<open>first_parts\<close> is that parts list when every guard before its length test holds.
\<close>

definition first_parts :: "result \<Rightarrow> part list option" where
  "first_parts r =
     (case response r of
        None \<Rightarrow> None
      | Some resp \<Rightarrow>
          (case candidates resp of
             None \<Rightarrow> None
           | Some [] \<Rightarrow> None
           | Some (c0 # cs) \<Rightarrow>
               (case content c0 of
                  None \<Rightarrow> None
                | Some ct \<Rightarrow> parts ct)))"

text \<open>
  Lines 67 to 78: with a non-empty parts list the reply is \<^verbatim>\<open>parts[0].text\<close>, sent
  with the default status 200; otherwise the \<^verbatim>\<open>else\<close> branch runs.
\<close>

definition respond :: "result \<Rightarrow> string list \<Rightarrow> exchange" where
  "respond r sent =
     (case first_parts r of
        None \<Rightarrow> no_valid_candidate r sent
      | Some [] \<Rightarrow> no_valid_candidate r sent
      | Some (p0 # ps) \<Rightarrow>
          \<lparr> status = 200,
            body = json [(''reply'', text p0)],
            console = [],
            submitted = sent \<rparr>)"

text \<open>The handler of lines 53 to 83.\<close>

definition askdeck :: "'n runtime \<Rightarrow> gateway option \<Rightarrow> 'n jsval \<Rightarrow> exchange" where
  "askdeck rt mdl req_body =
     (case mdl of
        None \<Rightarrow>
          \<lparr> status = 500,
            body = json [(''error'', Some ''AI service is not configured correctly on the server. Check model ID and API key.'')],
            console = [ConsoleError ''/api/askdeck called, but AI model is not initialized.'' []],
            submitted = [] \<rparr>
      | Some send \<Rightarrow>
          (case destructure req_body of
             Inl e \<Rightarrow> catch_block (type_error_message rt e) []
           | Inr (message, context) \<Rightarrow>
               if \<not> truthy rt message \<or> \<not> truthy rt context then
                 \<lparr> status = 400,
                   body = json [(''error'', Some ''Message and context are required.'')],
                   console = [],
                   submitted = [] \<rparr>
               else
                 (case fullPrompt rt context message of
                    Inl e \<Rightarrow> catch_block (type_error_message rt e) []
                  | Inr prompt \<Rightarrow>
                      (case send prompt of
                         Rejects msg \<Rightarrow> catch_block msg [prompt]
                       | Resolves r \<Rightarrow> respond r [prompt]))))"

subsection \<open>GET /api/health\<close>

definition health :: exchange where
  "health =
     \<lparr> status = 200,
       body = json [(''status'', Some ''ok''),
                    (''message'', Some ''AskDeck API backend is running on Render.'')],
       console = [],
       submitted = [] \<rparr>"

text \<open>The two registered routes; the health handler reads neither the request nor \<^verbatim>\<open>model\<close>.\<close>

datatype route = POST_api_askdeck | GET_api_health

fun serve :: "'n runtime \<Rightarrow> gateway option \<Rightarrow> route \<Rightarrow> 'n jsval \<Rightarrow> exchange" where
  "serve rt mdl POST_api_askdeck req_body = askdeck rt mdl req_body"
| "serve rt mdl GET_api_health req_body = health"

subsection \<open>The claims' notion of a usable candidate\<close>

text \<open>
  The specification speaks of a result that "contains at least one candidate with at least
  one non-empty content part"; the two definitions below follow those words (any
  candidate of the list, a parts list that is present and not empty), for comparison with
  the guard the handler evaluates.
\<close>

definition spec_usable_candidate :: "candidate \<Rightarrow> bool" where
  "spec_usable_candidate c =
     (case content c of
        None \<Rightarrow> False
      | Some ct \<Rightarrow> (case parts ct of None \<Rightarrow> False | Some ps \<Rightarrow> ps \<noteq> []))"

definition spec_has_usable_candidate :: "result \<Rightarrow> bool" where
  "spec_has_usable_candidate r =
     (case response r of
        None \<Rightarrow> False
      | Some resp \<Rightarrow>
          (case candidates resp of
             None \<Rightarrow> False
           | Some cs \<Rightarrow> list_ex spec_usable_candidate cs))"

subsection \<open>A concrete runtime and sample inputs\<close>

text \<open>
  Node's engine on integer-valued numbers: every integer but zero is truthy, a safe
  integer prints in decimal, and the TypeError messages are V8's.
\<close>

function decimal :: "nat \<Rightarrow> string" where
  "decimal n =
     (if n < 10 then [''0123456789'' ! n]
      else decimal (n div 10) @ [''0123456789'' ! (n mod 10)])"
  by pat_completeness auto
termination
  by (relation "measure (\<lambda>n. n)") auto

fun v8_message :: "type_error \<Rightarrow> string" where
  "v8_message Destructure_undefined =
     ''Cannot destructure property '' @ [CHR 0x27] @ ''message'' @ [CHR 0x27] @ '' of ''
       @ [CHR 0x27] @ ''req.body'' @ [CHR 0x27] @ '' as it is undefined.''"
| "v8_message Destructure_null =
     ''Cannot destructure property '' @ [CHR 0x27] @ ''message'' @ [CHR 0x27] @ '' of ''
       @ [CHR 0x27] @ ''req.body'' @ [CHR 0x27] @ '' as it is null.''"
| "v8_message Object_to_primitive = ''Cannot convert object to primitive value''"

definition node :: "int runtime" where
  "node =
     \<lparr> num_truthy = (\<lambda>i. i \<noteq> 0),
       num_to_string = (\<lambda>i. if i < 0 then ''-'' @ decimal (nat (- i)) else decimal (nat i)),
       type_error_message = v8_message \<rparr>"

text \<open>Stub gateways: one that resolves with a given result, one that rejects.\<close>

definition resolving :: "result \<Rightarrow> gateway" where
  "resolving r = (\<lambda>prompt. Resolves r)"

definition rejecting :: "string \<Rightarrow> gateway" where
  "rejecting msg = (\<lambda>prompt. Rejects msg)"

definition text_result :: "string option list list \<Rightarrow> string option \<Rightarrow> result" where
  "text_result texts reason =
     \<lparr> response = Some
         \<lparr> candidates = Some (map (\<lambda>ts. \<lparr> content =
                                Some \<lparr> parts = Some (map (\<lambda>t. \<lparr> text = t \<rparr>) ts) \<rparr> \<rparr>) texts),
           promptFeedback = Some \<lparr> blockReason = reason \<rparr> \<rparr> \<rparr>"

definition capital_body :: "int jsval" where
  "capital_body =
     JObj [(''message'', JStr ''Capital of France?''), (''context'', JStr ''Geography'')]"

definition capital_prompt :: string where
  "capital_prompt =
     ''Geography\<newline>\<newline>---\<newline>\<newline>User Question: Capital of France?\<newline>\<newline>AskDeck Response:''"

text \<open>Stub client constructors: one that throws, one that returns a handle.\<close>

definition refusing :: "string \<Rightarrow> string \<Rightarrow> string \<Rightarrow> string + gateway" where
  "refusing e key model_id = Inl e"

definition accepting :: "gateway \<Rightarrow> string \<Rightarrow> string \<Rightarrow> string + gateway" where
  "accepting g key model_id = Inr g"

section \<open>Properties of the handlers\<close>

subsection \<open>Shared facts\<close>

text \<open>
  With the model handle present, a body that destructures, two truthy fields and a prompt
  that composes, the handler submits the prompt once and continues with the outcome.
\<close>

lemma askdeck_submits:
  assumes "destructure req_body = Inr (message, context)"
    and "truthy rt message" and "truthy rt context"
    and "fullPrompt rt context message = Inr prompt"
  shows "askdeck rt (Some send) req_body =
           (case send prompt of
              Rejects msg \<Rightarrow> catch_block msg [prompt]
            | Resolves r \<Rightarrow> respond r [prompt])"
  using assms by (simp add: askdeck_def)

lemma capital_destructure:
  "destructure capital_body = Inr (JStr ''Capital of France?'', JStr ''Geography'')"
  by (simp add: capital_body_def)

lemma capital_truthy:
  "truthy node (JStr ''Capital of France?'')" "truthy node (JStr ''Geography'')"
  by simp_all

lemma capital_fullPrompt:
  "fullPrompt node (JStr ''Geography'') (JStr ''Capital of France?'') = Inr capital_prompt"
  by (simp add: fullPrompt_def capital_prompt_def)

text \<open>
  When no candidate of the result is usable in the specification's sense, the first one
  is not either, and the guard of line 67 fails.
\<close>

lemma first_parts_unusable:
  assumes "\<not> spec_has_usable_candidate r"
  shows "first_parts r = None \<or> first_parts r = Some []"
  using assms
  by (auto simp: spec_has_usable_candidate_def spec_usable_candidate_def first_parts_def
           split: option.splits list.splits)

lemma respond_unusable:
  assumes "\<not> spec_has_usable_candidate r"
  shows "respond r sent = no_valid_candidate r sent"
  using first_parts_unusable [OF assms] by (auto simp: respond_def)

lemma status_no_valid_candidate: "status (no_valid_candidate r sent) = 500"
  by (simp add: no_valid_candidate_def split: option.splits)

text \<open>The model handle is missing exactly when the key is missing or empty, or the client constructor throws.\<close>

lemma model_disabled_iff:
  "model apiKey construct = None \<longleftrightarrow>
     apiKey = None \<or> apiKey = Some [] \<or>
     (\<exists>k e. apiKey = Some k \<and> construct k ''gemini-2.0-flash'' = Inl e)"
  by (auto simp: model_def startup_def split: option.splits sum.splits)

text \<open>A field that is absent, \<^verbatim>\<open>null\<close> or the empty string is falsy.\<close>

lemma absent_or_empty_is_falsy:
  assumes "map_of kvs k = None \<or> map_of kvs k = Some JNull \<or> map_of kvs k = Some (JStr [])"
  shows "\<not> truthy rt (property (JObj kvs) k)"
  using assms by auto

subsection \<open>Success: the first candidate's first part\<close>

text \<open>
  Claim C1, as amended. For a valid request on an enabled gateway whose submission
  resolves with result \<open>r\<close>: when the first candidate of \<open>r\<close> has a content with a
  non-empty parts list, the handler responds 200 with body \<^verbatim>\<open>{ reply: parts[0].text }\<close>
  of that first candidate (the field is left out when the part has no text), logs nothing
  and has submitted the prompt once; and the status is 200 exactly for such results. The
  text of the part is not inspected, so an empty text is relayed as an empty reply, and
  candidates after the first are not inspected.
\<close>

theorem first_candidate_parts_reply:
  assumes "destructure req_body = Inr (message, context)"
    and "truthy rt message" and "truthy rt context"
    and "fullPrompt rt context message = Inr prompt"
    and "send prompt = Resolves r"
  shows "(first_parts r = Some (p0 # ps) \<longrightarrow>
            askdeck rt (Some send) req_body =
              \<lparr> status = 200, body = json [(''reply'', text p0)], console = [],
                submitted = [prompt] \<rparr>)
         \<and> (status (askdeck rt (Some send) req_body) = 200
              \<longleftrightarrow> (\<exists>q qs. first_parts r = Some (q # qs)))"
proof -
  have run: "askdeck rt (Some send) req_body = respond r [prompt]"
    using askdeck_submits [OF assms(1-4), of send] assms(5) by simp
  show ?thesis
    unfolding run
    by (auto simp: respond_def status_no_valid_candidate split: option.splits list.splits)
qed

text \<open>The theorem at a result whose first candidate has two parts, the first with empty text.\<close>

theorem first_candidate_parts_reply_witness:
  "destructure capital_body = Inr (JStr ''Capital of France?'', JStr ''Geography'')
   \<and> truthy node (JStr ''Capital of France?'') \<and> truthy node (JStr ''Geography'')
   \<and> fullPrompt node (JStr ''Geography'') (JStr ''Capital of France?'') = Inr capital_prompt
   \<and> resolving (text_result [[Some '''', Some ''x'']] None) capital_prompt
       = Resolves (text_result [[Some '''', Some ''x'']] None)
   \<and> first_parts (text_result [[Some '''', Some ''x'']] None)
       = Some (\<lparr> text = Some '''' \<rparr> # [\<lparr> text = Some ''x'' \<rparr>])
   \<and> askdeck node (Some (resolving (text_result [[Some '''', Some ''x'']] None))) capital_body
       = \<lparr> status = 200, body = [(''reply'', '''')], console = [], submitted = [capital_prompt] \<rparr>
   \<and> status (askdeck node (Some (resolving (text_result [[Some '''', Some ''x'']] None))) capital_body) = 200"
proof -
  have c: "resolving (text_result [[Some '''', Some ''x'']] None) capital_prompt
             = Resolves (text_result [[Some '''', Some ''x'']] None)"
    by (simp add: resolving_def)
  have d: "first_parts (text_result [[Some '''', Some ''x'']] None)
             = Some (\<lparr> text = Some '''' \<rparr> # [\<lparr> text = Some ''x'' \<rparr>])"
    by (simp add: first_parts_def text_result_def)
  from first_candidate_parts_reply
    [where send = "resolving (text_result [[Some '''', Some ''x'']] None)"
       and ?p0.0 = "\<lparr> text = Some '''' \<rparr>" and ps = "[\<lparr> text = Some ''x'' \<rparr>]",
     OF capital_destructure capital_truthy capital_fullPrompt c]
  show ?thesis
    using capital_destructure capital_truthy capital_fullPrompt c d by simp
qed

text \<open>
  Claim C1 as stated fails twice. A result whose only candidate has one part with empty
  text is answered 200 with \<^verbatim>\<open>{ reply: "" }\<close>, not with the error an empty candidate
  list gets. And a result whose second candidate has a non-empty parts list, while the
  first has an empty one, contains a usable candidate and is answered 500.
\<close>

theorem empty_text_part_counterexample:
  "askdeck node (Some (resolving (text_result [[Some '''']] None))) capital_body
     = \<lparr> status = 200, body = [(''reply'', '''')], console = [], submitted = [capital_prompt] \<rparr>
   \<and> body (askdeck node (Some (resolving (text_result [] None))) capital_body)
     = [(''error'', ''AI did not provide a valid response.'')]
   \<and> spec_has_usable_candidate (text_result [[], [Some ''Paris'']] None)
   \<and> status (askdeck node (Some (resolving (text_result [[], [Some ''Paris'']] None))) capital_body) = 500"
  by (simp add: askdeck_def capital_body_def fullPrompt_def capital_prompt_def resolving_def
        respond_def first_parts_def text_result_def no_valid_candidate_def block_reason_def
        feedback_of_def spec_has_usable_candidate_def spec_usable_candidate_def)

subsection \<open>Prompt composition\<close>

text \<open>
  Claim C2. For strings \<open>context\<close> and \<open>message\<close>, composing the prompt does not throw
  and yields exactly \<open>context\<close>, the separator and \<^verbatim>\<open>User Question: \<close>, \<open>message\<close>, and
  the marker after a blank line; so the prompt starts with the context and ends with the
  question followed by the marker \<^verbatim>\<open>AskDeck Response:\<close>. When both strings are
  non-empty, this prompt is the one thing the handler submits.
\<close>

theorem fullPrompt_strings:
  "fullPrompt rt (JStr context) (JStr message)
     = Inr (context @ ''\<newline>\<newline>---\<newline>\<newline>User Question: '' @ message
              @ ''\<newline>\<newline>AskDeck Response:'')
   \<and> (case fullPrompt rt (JStr context) (JStr message) of
        Inl e \<Rightarrow> False
      | Inr p \<Rightarrow>
          prefix context p
          \<and> suffix (''User Question: '' @ message @ ''\<newline>\<newline>AskDeck Response:'') p
          \<and> suffix ''AskDeck Response:'' p)
   \<and> (context \<noteq> [] \<and> message \<noteq> [] \<longrightarrow>
        submitted (askdeck rt (Some send)
                     (JObj [(''message'', JStr message), (''context'', JStr context)]))
          = [context @ ''\<newline>\<newline>---\<newline>\<newline>User Question: '' @ message
               @ ''\<newline>\<newline>AskDeck Response:''])"
proof -
  define p where "p = context @ ''\<newline>\<newline>---\<newline>\<newline>User Question: '' @ message
              @ ''\<newline>\<newline>AskDeck Response:''"
  have eq: "fullPrompt rt (JStr context) (JStr message) = Inr p"
    by (simp add: fullPrompt_def p_def)
  have pre: "prefix context p"
    by (simp add: p_def)
  have "p = (context @ ''\<newline>\<newline>---\<newline>\<newline>'')
               @ (''User Question: '' @ message @ ''\<newline>\<newline>AskDeck Response:'')"
    by (simp add: p_def)
  then have suf: "suffix (''User Question: '' @ message @ ''\<newline>\<newline>AskDeck Response:'') p"
    unfolding suffix_def by blast
  have "p = (context @ ''\<newline>\<newline>---\<newline>\<newline>User Question: '' @ message @ ''\<newline>\<newline>'')
               @ ''AskDeck Response:''"
    by (simp add: p_def)
  then have marker: "suffix ''AskDeck Response:'' p"
    unfolding suffix_def by blast
  have sent: "submitted (askdeck rt (Some send)
                 (JObj [(''message'', JStr message), (''context'', JStr context)])) = [p]"
    if "context \<noteq> []" "message \<noteq> []"
  proof -
    have "askdeck rt (Some send) (JObj [(''message'', JStr message), (''context'', JStr context)])
            = (case send p of
                 Rejects msg \<Rightarrow> catch_block msg [p]
               | Resolves r \<Rightarrow> respond r [p])"
      using that by (intro askdeck_submits [OF _ _ _ eq]) simp_all
    then show ?thesis
      by (simp add: catch_block_def respond_def no_valid_candidate_def
            split: remote_outcome.splits option.splits list.splits)
  qed
  show ?thesis
    unfolding p_def [symmetric] using pre suf marker sent by (simp add: eq)
qed

theorem fullPrompt_strings_witness:
  "''Geography'' \<noteq> [] \<and> ''Capital of France?'' \<noteq> []
   \<and> fullPrompt node (JStr ''Geography'') (JStr ''Capital of France?'') = Inr capital_prompt
   \<and> submitted (askdeck node (Some (rejecting ''ECONNRESET'')) capital_body) = [capital_prompt]"
  using fullPrompt_strings [of node "''Geography''" "''Capital of France?''" "rejecting ''ECONNRESET''"]
  by (simp add: capital_prompt_def capital_body_def)

subsection \<open>Blocked responses\<close>

text \<open>
  Claim C3. For a valid request on an enabled gateway whose submission resolves with a
  result that has no usable candidate (no candidate with a non-empty parts list) and
  carries a block reason in its prompt feedback (a string that is not empty), the handler
  responds 500 with body \<^verbatim>\<open>{ error: "Response blocked: " + reason }\<close>, warns on the
  console with the reason and the feedback, and has submitted the prompt once.
\<close>

theorem blocked_response:
  assumes "destructure req_body = Inr (message, context)"
    and "truthy rt message" and "truthy rt context"
    and "fullPrompt rt context message = Inr prompt"
    and "send prompt = Resolves r"
    and "\<not> spec_has_usable_candidate r"
    and "block_reason r = Some reason" and "reason \<noteq> []"
  shows "askdeck rt (Some send) req_body =
           \<lparr> status = 500,
             body = [(''error'', ''Response blocked: '' @ reason)],
             console = [ConsoleWarn ''AI response blocked. Reason:''
                          [Text reason, Feedback (feedback_of r)]],
             submitted = [prompt] \<rparr>"
proof -
  have "askdeck rt (Some send) req_body = respond r [prompt]"
    using askdeck_submits [OF assms(1-4), of send] assms(5) by simp
  also have "\<dots> = no_valid_candidate r [prompt]"
    by (rule respond_unusable [OF assms(6)])
  also have "\<dots> = \<lparr> status = 500,
             body = [(''error'', ''Response blocked: '' @ reason)],
             console = [ConsoleWarn ''AI response blocked. Reason:''
                          [Text reason, Feedback (feedback_of r)]],
             submitted = [prompt] \<rparr>"
    using assms(7,8) by (simp add: no_valid_candidate_def)
  finally show ?thesis .
qed

theorem blocked_response_witness:
  "destructure capital_body = Inr (JStr ''Capital of France?'', JStr ''Geography'')
   \<and> truthy node (JStr ''Capital of France?'') \<and> truthy node (JStr ''Geography'')
   \<and> fullPrompt node (JStr ''Geography'') (JStr ''Capital of France?'') = Inr capital_prompt
   \<and> resolving (text_result [] (Some ''SAFETY'')) capital_prompt
       = Resolves (text_result [] (Some ''SAFETY''))
   \<and> \<not> spec_has_usable_candidate (text_result [] (Some ''SAFETY''))
   \<and> block_reason (text_result [] (Some ''SAFETY'')) = Some ''SAFETY'' \<and> ''SAFETY'' \<noteq> []
   \<and> status (askdeck node (Some (resolving (text_result [] (Some ''SAFETY'')))) capital_body) = 500
   \<and> body (askdeck node (Some (resolving (text_result [] (Some ''SAFETY'')))) capital_body)
       = [(''error'', ''Response blocked: SAFETY'')]"
proof -
  have c: "resolving (text_result [] (Some ''SAFETY'')) capital_prompt
             = Resolves (text_result [] (Some ''SAFETY''))"
    by (simp add: resolving_def)
  have d: "\<not> spec_has_usable_candidate (text_result [] (Some ''SAFETY''))"
    by (simp add: spec_has_usable_candidate_def text_result_def)
  have e: "block_reason (text_result [] (Some ''SAFETY'')) = Some ''SAFETY''"
    by (simp add: block_reason_def feedback_of_def text_result_def)
  have f: "''SAFETY'' \<noteq> []"
    by simp
  from blocked_response
    [where send = "resolving (text_result [] (Some ''SAFETY''))",
     OF capital_destructure capital_truthy capital_fullPrompt c d e f]
  show ?thesis
    using capital_destructure capital_truthy capital_fullPrompt c d e by simp
qed

subsection \<open>Transport errors\<close>

text \<open>
  Claim C4. For a valid request on an enabled gateway whose submission rejects with an
  error of message \<open>msg\<close>, the handler responds 500 with body
  \<^verbatim>\<open>{ error: "Failed to get response from AI: " + msg }\<close>, logs the error, and has
  submitted the prompt exactly once: there is no second attempt.
\<close>

theorem transport_error_response:
  assumes "destructure req_body = Inr (message, context)"
    and "truthy rt message" and "truthy rt context"
    and "fullPrompt rt context message = Inr prompt"
    and "send prompt = Rejects msg"
  shows "askdeck rt (Some send) req_body =
           \<lparr> status = 500,
             body = [(''error'', ''Failed to get response from AI: '' @ msg)],
             console = [ConsoleError ''Error in /api/askdeck endpoint:'' [Text msg, Stack]],
             submitted = [prompt] \<rparr>"
  using askdeck_submits [OF assms(1-4), of send] assms(5)
  by (simp add: catch_block_def)

theorem transport_error_response_witness:
  "destructure capital_body = Inr (JStr ''Capital of France?'', JStr ''Geography'')
   \<and> truthy node (JStr ''Capital of France?'') \<and> truthy node (JStr ''Geography'')
   \<and> fullPrompt node (JStr ''Geography'') (JStr ''Capital of France?'') = Inr capital_prompt
   \<and> rejecting ''ECONNRESET'' capital_prompt = Rejects ''ECONNRESET''
   \<and> askdeck node (Some (rejecting ''ECONNRESET'')) capital_body =
       \<lparr> status = 500,
         body = [(''error'', ''Failed to get response from AI: ECONNRESET'')],
         console = [ConsoleError ''Error in /api/askdeck endpoint:'' [Text ''ECONNRESET'', Stack]],
         submitted = [capital_prompt] \<rparr>"
proof -
  have c: "rejecting ''ECONNRESET'' capital_prompt = Rejects ''ECONNRESET''"
    by (simp add: rejecting_def)
  from transport_error_response
    [where send = "rejecting ''ECONNRESET''",
     OF capital_destructure capital_truthy capital_fullPrompt c]
  show ?thesis
    using capital_destructure capital_truthy capital_fullPrompt c by simp
qed

subsection \<open>The disabled gateway\<close>

text \<open>
  Claim C5. When the API key is absent or empty at start-up, or constructing the client
  throws, every request to \<^verbatim>\<open>POST /api/askdeck\<close> is answered 500 with the
  configuration error, and nothing is submitted to the remote model.
\<close>

theorem disabled_gateway_response:
  assumes "apiKey = None \<or> apiKey = Some []
           \<or> (\<exists>k e. apiKey = Some k \<and> construct k ''gemini-2.0-flash'' = Inl e)"
  shows "askdeck rt (model apiKey construct) req_body =
           \<lparr> status = 500,
             body = [(''error'', ''AI service is not configured correctly on the server. Check model ID and API key.'')],
             console = [ConsoleError ''/api/askdeck called, but AI model is not initialized.'' []],
             submitted = [] \<rparr>"
proof -
  have "model apiKey construct = None"
    using assms by (simp add: model_disabled_iff)
  then show ?thesis
    by (simp add: askdeck_def)
qed

text \<open>The theorem with a key the constructor refuses, and with no key at all.\<close>

theorem disabled_gateway_response_witness:
  "refusing ''API key not valid'' ''k-123'' ''gemini-2.0-flash'' = Inl ''API key not valid''
   \<and> askdeck node (model (Some ''k-123'') (refusing ''API key not valid'')) capital_body =
       \<lparr> status = 500,
         body = [(''error'', ''AI service is not configured correctly on the server. Check model ID and API key.'')],
         console = [ConsoleError ''/api/askdeck called, but AI model is not initialized.'' []],
         submitted = [] \<rparr>
   \<and> askdeck node (model None (accepting (resolving (text_result [[Some ''Paris'']] None)))) capital_body =
       \<lparr> status = 500,
         body = [(''error'', ''AI service is not configured correctly on the server. Check model ID and API key.'')],
         console = [ConsoleError ''/api/askdeck called, but AI model is not initialized.'' []],
         submitted = [] \<rparr>"
proof -
  have a: "refusing ''API key not valid'' ''k-123'' ''gemini-2.0-flash'' = Inl ''API key not valid''"
    by (simp add: refusing_def)
  then have b: "Some ''k-123'' = None \<or> Some ''k-123'' = Some []
           \<or> (\<exists>k e. Some ''k-123'' = Some k
                  \<and> refusing ''API key not valid'' k ''gemini-2.0-flash'' = Inl e)"
    by blast
  have c: "None = None \<or> None = Some []
           \<or> (\<exists>k e. None = Some k
                  \<and> accepting (resolving (text_result [[Some ''Paris'']] None)) k ''gemini-2.0-flash'' = Inl e)"
    by simp
  show ?thesis
    using a
      disabled_gateway_response
        [where apiKey = "Some ''k-123''" and construct = "refusing ''API key not valid''"
           and rt = node and req_body = capital_body, OF b]
      disabled_gateway_response
        [where apiKey = None
           and construct = "accepting (resolving (text_result [[Some ''Paris'']] None))"
           and rt = node and req_body = capital_body, OF c]
    by simp
qed

subsection \<open>Malformed responses\<close>

text \<open>
  Claim C6. For a valid request on an enabled gateway whose submission resolves with a
  result that has no usable candidate and no block reason in its prompt feedback (none, or
  an empty one), the handler responds 500 with body
  \<^verbatim>\<open>{ error: "AI did not provide a valid response." }\<close> and logs the raw response with
  \<^verbatim>\<open>console.error\<close>.
\<close>

theorem malformed_response:
  assumes "destructure req_body = Inr (message, context)"
    and "truthy rt message" and "truthy rt context"
    and "fullPrompt rt context message = Inr prompt"
    and "send prompt = Resolves r"
    and "\<not> spec_has_usable_candidate r"
    and "block_reason r = None \<or> block_reason r = Some []"
  shows "askdeck rt (Some send) req_body =
           \<lparr> status = 500,
             body = [(''error'', ''AI did not provide a valid response.'')],
             console = [ConsoleError ''No valid candidate response from AI:''
                          [RawResponse (response r)]],
             submitted = [prompt] \<rparr>"
proof -
  have "askdeck rt (Some send) req_body = respond r [prompt]"
    using askdeck_submits [OF assms(1-4), of send] assms(5) by simp
  also have "\<dots> = no_valid_candidate r [prompt]"
    by (rule respond_unusable [OF assms(6)])
  also have "\<dots> = \<lparr> status = 500,
             body = [(''error'', ''AI did not provide a valid response.'')],
             console = [ConsoleError ''No valid candidate response from AI:''
                          [RawResponse (response r)]],
             submitted = [prompt] \<rparr>"
    using assms(7) by (auto simp: no_valid_candidate_def)
  finally show ?thesis .
qed

theorem malformed_response_witness:
  "destructure capital_body = Inr (JStr ''Capital of France?'', JStr ''Geography'')
   \<and> truthy node (JStr ''Capital of France?'') \<and> truthy node (JStr ''Geography'')
   \<and> fullPrompt node (JStr ''Geography'') (JStr ''Capital of France?'') = Inr capital_prompt
   \<and> resolving (text_result [] None) capital_prompt = Resolves (text_result [] None)
   \<and> \<not> spec_has_usable_candidate (text_result [] None)
   \<and> block_reason (text_result [] None) = None
   \<and> askdeck node (Some (resolving (text_result [] None))) capital_body =
       \<lparr> status = 500,
         body = [(''error'', ''AI did not provide a valid response.'')],
         console = [ConsoleError ''No valid candidate response from AI:''
                      [RawResponse (response (text_result [] None))]],
         submitted = [capital_prompt] \<rparr>"
proof -
  have c: "resolving (text_result [] None) capital_prompt = Resolves (text_result [] None)"
    by (simp add: resolving_def)
  have d: "\<not> spec_has_usable_candidate (text_result [] None)"
    by (simp add: spec_has_usable_candidate_def text_result_def)
  have e: "block_reason (text_result [] None) = None"
    by (simp add: block_reason_def feedback_of_def text_result_def)
  then have f: "block_reason (text_result [] None) = None
                \<or> block_reason (text_result [] None) = Some []"
    by simp
  from malformed_response
    [where send = "resolving (text_result [] None)",
     OF capital_destructure capital_truthy capital_fullPrompt c d f]
  show ?thesis
    using capital_destructure capital_truthy capital_fullPrompt c d e by simp
qed

subsection \<open>Validation of the request fields\<close>

text \<open>
  Claim C7. On an enabled gateway, for every request body (any value but
  \<^verbatim>\<open>undefined\<close> and \<^verbatim>\<open>null\<close>) whose \<^verbatim>\<open>message\<close> or whose \<^verbatim>\<open>context\<close> is
  falsy, the handler responds 400 with body
  \<^verbatim>\<open>{ error: "Message and context are required." }\<close> and submits nothing. A field that
  is absent reads as \<^verbatim>\<open>undefined\<close>; \<^verbatim>\<open>undefined\<close>, \<^verbatim>\<open>null\<close>, the empty string,
  \<^verbatim>\<open>false\<close> and a zero number are the falsy values (an empty array or object is
  truthy).
\<close>

theorem missing_field_rejected:
  assumes "req_body \<noteq> JUndefined" and "req_body \<noteq> JNull"
    and "\<not> truthy rt (property req_body ''message'')
         \<or> \<not> truthy rt (property req_body ''context'')"
  shows "askdeck rt (Some send) req_body =
           \<lparr> status = 400,
             body = [(''error'', ''Message and context are required.'')],
             console = [],
             submitted = [] \<rparr>"
proof -
  have "destructure req_body = Inr (property req_body ''message'', property req_body ''context'')"
    using assms(1,2) by (cases req_body) simp_all
  then show ?thesis
    using assms(3) by (auto simp: askdeck_def)
qed

text \<open>The theorem at a body without \<^verbatim>\<open>message\<close>, and at a body whose \<^verbatim>\<open>context\<close> is empty.\<close>

theorem missing_field_rejected_witness:
  "JObj [(''context'', JStr ''Geography'')] \<noteq> (JUndefined :: int jsval)
   \<and> JObj [(''context'', JStr ''Geography'')] \<noteq> (JNull :: int jsval)
   \<and> \<not> truthy node (property (JObj [(''context'', JStr ''Geography'')]) ''message'')
   \<and> askdeck node (Some (resolving (text_result [[Some ''Paris'']] None)))
        (JObj [(''context'', JStr ''Geography'')]) =
       \<lparr> status = 400,
         body = [(''error'', ''Message and context are required.'')],
         console = [],
         submitted = [] \<rparr>
   \<and> JObj [(''message'', JStr ''Capital of France?''), (''context'', JStr '''')] \<noteq> (JUndefined :: int jsval)
   \<and> JObj [(''message'', JStr ''Capital of France?''), (''context'', JStr '''')] \<noteq> (JNull :: int jsval)
   \<and> \<not> truthy node (property (JObj [(''message'', JStr ''Capital of France?''), (''context'', JStr '''')]) ''context'')
   \<and> askdeck node (Some (resolving (text_result [[Some ''Paris'']] None)))
        (JObj [(''message'', JStr ''Capital of France?''), (''context'', JStr '''')]) =
       \<lparr> status = 400,
         body = [(''error'', ''Message and context are required.'')],
         console = [],
         submitted = [] \<rparr>"
  using
    missing_field_rejected
      [where rt = node and req_body = "JObj [(''context'', JStr ''Geography'')]"
         and send = "resolving (text_result [[Some ''Paris'']] None)"]
    missing_field_rejected
      [where rt = node
         and req_body = "JObj [(''message'', JStr ''Capital of France?''), (''context'', JStr '''')]"
         and send = "resolving (text_result [[Some ''Paris'']] None)"]
  by simp

text \<open>
  Claim C8, as amended. The validation tests truthiness, so emptiness as well as absence:
  on an enabled gateway, a body whose \<^verbatim>\<open>message\<close> and \<^verbatim>\<open>context\<close> are both strings
  is rejected with 400, with nothing submitted, when either string is empty; and when both
  are non-empty it is not answered 400 and the composed prompt is submitted once.
\<close>

theorem validation_tests_emptiness:
  "(message = [] \<or> context = [] \<longrightarrow>
      askdeck rt (Some send) (JObj [(''message'', JStr message), (''context'', JStr context)]) =
        \<lparr> status = 400,
          body = [(''error'', ''Message and context are required.'')],
          console = [],
          submitted = [] \<rparr>)
   \<and> (message \<noteq> [] \<and> context \<noteq> [] \<longrightarrow>
        status (askdeck rt (Some send)
                  (JObj [(''message'', JStr message), (''context'', JStr context)])) \<noteq> 400
        \<and> submitted (askdeck rt (Some send)
                  (JObj [(''message'', JStr message), (''context'', JStr context)]))
            = [context @ ''\<newline>\<newline>---\<newline>\<newline>User Question: '' @ message
                 @ ''\<newline>\<newline>AskDeck Response:''])"
proof -
  define p where "p = context @ ''\<newline>\<newline>---\<newline>\<newline>User Question: '' @ message
              @ ''\<newline>\<newline>AskDeck Response:''"
  have eq: "fullPrompt rt (JStr context) (JStr message) = Inr p"
    by (simp add: fullPrompt_def p_def)
  have rejected: "askdeck rt (Some send)
                    (JObj [(''message'', JStr message), (''context'', JStr context)]) =
        \<lparr> status = 400,
          body = [(''error'', ''Message and context are required.'')],
          console = [],
          submitted = [] \<rparr>"
    if "message = [] \<or> context = []"
    using that by (auto simp: askdeck_def)
  have passed: "askdeck rt (Some send) (JObj [(''message'', JStr message), (''context'', JStr context)])
            = (case send p of
                 Rejects msg \<Rightarrow> catch_block msg [p]
               | Resolves r \<Rightarrow> respond r [p])"
    if "message \<noteq> []" "context \<noteq> []"
    using that by (intro askdeck_submits [OF _ _ _ eq]) simp_all
  have "status (case send p of
                 Rejects msg \<Rightarrow> catch_block msg [p]
               | Resolves r \<Rightarrow> respond r [p]) \<noteq> 400"
    by (simp add: catch_block_def respond_def no_valid_candidate_def
          split: remote_outcome.splits option.splits list.splits)
  moreover have "submitted (case send p of
                 Rejects msg \<Rightarrow> catch_block msg [p]
               | Resolves r \<Rightarrow> respond r [p]) = [p]"
    by (simp add: catch_block_def respond_def no_valid_candidate_def
          split: remote_outcome.splits option.splits list.splits)
  ultimately show ?thesis
    unfolding p_def [symmetric] using rejected passed by auto
qed

theorem validation_tests_emptiness_witness:
  "('''' = [] \<or> ''Geography'' = [])
   \<and> askdeck node (Some (rejecting ''ECONNRESET''))
        (JObj [(''message'', JStr ''''), (''context'', JStr ''Geography'')]) =
        \<lparr> status = 400,
          body = [(''error'', ''Message and context are required.'')],
          console = [],
          submitted = [] \<rparr>
   \<and> ''Capital of France?'' \<noteq> [] \<and> ''Geography'' \<noteq> []
   \<and> status (askdeck node (Some (rejecting ''ECONNRESET'')) capital_body) \<noteq> 400
   \<and> submitted (askdeck node (Some (rejecting ''ECONNRESET'')) capital_body) = [capital_prompt]"
  using
    validation_tests_emptiness [of "''''" "''Geography''" node "rejecting ''ECONNRESET''"]
    validation_tests_emptiness [of "''Capital of France?''" "''Geography''" node "rejecting ''ECONNRESET''"]
  by (simp add: capital_body_def capital_prompt_def)

text \<open>
  Claim C8 as stated fails: with both fields present and \<^verbatim>\<open>message\<close> the empty string,
  the request is rejected with 400 and nothing is submitted.
\<close>

theorem empty_string_rejected_counterexample:
  "askdeck node (Some (resolving (text_result [[Some ''Paris'']] None)))
     (JObj [(''message'', JStr ''''), (''context'', JStr ''Geography'')]) =
     \<lparr> status = 400,
       body = [(''error'', ''Message and context are required.'')],
       console = [],
       submitted = [] \<rparr>"
  by (simp add: askdeck_def)

subsection \<open>The health endpoint\<close>

text \<open>
  Claim C9. Every request to \<^verbatim>\<open>GET /api/health\<close> is answered 200 with the fixed body
  \<^verbatim>\<open>{ status: "ok", message: "AskDeck API backend is running on Render." }\<close>, whatever
  the model handle is.
\<close>

theorem health_always_ok:
  "serve rt mdl GET_api_health req_body =
     \<lparr> status = 200,
       body = [(''status'', ''ok''), (''message'', ''AskDeck API backend is running on Render.'')],
       console = [],
       submitted = [] \<rparr>"
  by (simp add: health_def)

theorem health_always_ok_witness:
  "serve node None GET_api_health capital_body =
     \<lparr> status = 200,
       body = [(''status'', ''ok''), (''message'', ''AskDeck API backend is running on Render.'')],
       console = [],
       submitted = [] \<rparr>
   \<and> serve node (Some (rejecting ''ECONNRESET'')) GET_api_health capital_body =
     \<lparr> status = 200,
       body = [(''status'', ''ok''), (''message'', ''AskDeck API backend is running on Render.'')],
       console = [],
       submitted = [] \<rparr>"
  using health_always_ok [of node None capital_body]
    health_always_ok [of node "Some (rejecting ''ECONNRESET'')" capital_body]
  by simp

subsection \<open>Order of the checks\<close>

text \<open>
  Claim C10. The check of the model handle comes before the validation of the fields:
  without a model handle every request body, also one that lacks \<^verbatim>\<open>message\<close> or
  \<^verbatim>\<open>context\<close>, gets the 500 configuration error; a 400 is sent only when the handle is
  present.
\<close>

theorem disabled_check_precedes_validation:
  "askdeck rt None req_body =
     \<lparr> status = 500,
       body = [(''error'', ''AI service is not configured correctly on the server. Check model ID and API key.'')],
       console = [ConsoleError ''/api/askdeck called, but AI model is not initialized.'' []],
       submitted = [] \<rparr>
   \<and> (status (askdeck rt mdl req_body) = 400 \<longrightarrow> mdl \<noteq> None)"
  by (cases mdl) (simp_all add: askdeck_def)

theorem disabled_check_precedes_validation_witness:
  "askdeck node None (JObj [(''context'', JStr ''Geography'')]) =
     \<lparr> status = 500,
       body = [(''error'', ''AI service is not configured correctly on the server. Check model ID and API key.'')],
       console = [ConsoleError ''/api/askdeck called, but AI model is not initialized.'' []],
       submitted = [] \<rparr>
   \<and> status (askdeck node (Some (rejecting ''ECONNRESET'')) (JObj [(''context'', JStr ''Geography'')])) = 400
   \<and> Some (rejecting ''ECONNRESET'') \<noteq> None"
proof -
  have a: "status (askdeck node (Some (rejecting ''ECONNRESET''))
                     (JObj [(''context'', JStr ''Geography'')])) = 400"
    by (simp add: askdeck_def)
  show ?thesis
    using a
      disabled_check_precedes_validation
        [of node "JObj [(''context'', JStr ''Geography'')]" "Some (rejecting ''ECONNRESET'')"]
    by simp
qed

end
